theory Spec2Isabelle
  imports Complex_Main
begin

section \<open>Numbers, rounding and time\<close>

text \<open>
  The services compute with JavaScript numbers. They are modelled as exact rationals:
  the model follows the arithmetic the code writes down and leaves the binary
  representation of doubles aside. \<^verbatim>\<open>Math.round(x)\<close> is the integer nearest to \<open>x\<close>, a tie
  going upwards, that is \<open>\<lfloor>x + 1/2\<rfloor>\<close>.

  A date is modelled by the number of milliseconds it denotes, so that
  \<^verbatim>\<open>new Date(a.endsAt) <= now\<close> is a comparison of integers, and every \<^verbatim>\<open>new Date()\<close> of
  the source is an explicit argument of the model.
\<close>

type_synonym number = rat
type_synonym time = int

definition Math_round :: "number \<Rightarrow> int" where
  "Math_round x = \<lfloor>x + 1 / 2\<rfloor>"

definition round2 :: "number \<Rightarrow> number" where
  "round2 n = of_int (Math_round (n * 100)) / 100"


section \<open>The auction service (auction.service.ts)\<close>

subsection \<open>Data\<close>

datatype auction_status = Active | Ended | Sold | Cancelled

record auction =
  a_id :: int
  sellerId :: int
  sellerName :: string
  title :: string
  description :: string
  imageUrl :: string
  category :: string
  startingPrice :: number
  currentPrice :: number
  bidCount :: int
  status :: auction_status
  createdAt :: time
  endsAt :: time
  winnerId :: "int option"
  winnerName :: "string option"

record bid =
  b_id :: int
  auctionId :: int
  bidderId :: int
  bidderName :: string
  amount :: number
  b_createdAt :: time

text \<open>The argument object of \<^verbatim>\<open>createAuction\<close>.\<close>

record auction_data =
  d_sellerId :: int
  d_sellerName :: string
  d_title :: string
  d_description :: string
  d_imageUrl :: string
  d_category :: string
  d_startingPrice :: number
  d_endsAt :: time

text \<open>The private fields of the class \<^verbatim>\<open>AuctionService\<close>.\<close>

record AuctionService =
  auctions :: "auction list"
  bids :: "bid list"
  nextAuctionId :: int
  nextBidId :: int

text \<open>
  The values a call can fail with: the error objects handed to \<^verbatim>\<open>throwError\<close>, one
  constructor for each message of the source, and the \<^verbatim>\<open>TypeError\<close> that JavaScript raises
  when a property of \<^verbatim>\<open>undefined\<close> is read. In the vocabulary of the specification,
  \<open>AuctionNotFound\<close> is its NotFoundError, \<open>AuctionNoLongerActive\<close>, \<open>AuctionHasEnded\<close> and
  \<open>OnlyActiveCanBeCancelled\<close> are ConflictErrors, \<open>CannotBidOnOwnAuction\<close> and
  \<open>CanOnlyCancelOwnAuctions\<close> are ForbiddenErrors, and \<open>BidMustBeAtLeast\<close> is the
  ValidationError. \<open>OrderNotFound\<close> is the error object of the order service.
\<close>

datatype error =
    AuctionNotFound
  | AuctionNoLongerActive
  | AuctionHasEnded
  | CannotBidOnOwnAuction
  | BidMustBeAtLeast number
  | CanOnlyCancelOwnAuctions
  | OnlyActiveCanBeCancelled
  | OrderNotFound
  | TypeError

text \<open>
  A method mutates the service and then returns or fails; the mutation stays when it
  fails. So a method is a function from the service to a result and the service after
  the call.
\<close>

type_synonym 'a outcome = "(error + 'a) \<times> AuctionService"


subsection \<open>Expiry\<close>

text \<open>
  \<^verbatim>\<open>this.bids.filter(b => b.auctionId === id).sort((a, b) => b.amount - a.amount)\<close>:
  the bids of one auction by descending amount. The sort of JavaScript is stable, as
  \<open>sort_key\<close> is, so bids of equal amount keep the order of the ledger.
\<close>

definition bidsByAmount :: "bid list \<Rightarrow> int \<Rightarrow> bid list" where
  "bidsByAmount bs i = sort_key (\<lambda>b. - amount b) (filter (\<lambda>b. auctionId b = i) bs)"

text \<open>
  The callback of the \<^verbatim>\<open>forEach\<close> in \<^verbatim>\<open>checkAndEndAuctions\<close>. The status is assigned before
  \<^verbatim>\<open>topBid.bidderId\<close> is read, so an auction that counts bids while the ledger holds none
  for it is left \<open>Sold\<close> without a winner when the \<^verbatim>\<open>TypeError\<close> is raised.
\<close>

definition endAuction :: "bid list \<Rightarrow> time \<Rightarrow> auction \<Rightarrow> error option \<times> auction" where
  "endAuction bs now a =
     (if status a = Active \<and> endsAt a \<le> now then
        (if bidCount a > 0 then
           (case bidsByAmount bs (a_id a) of
              [] \<Rightarrow> (Some TypeError, a\<lparr>status := Sold\<rparr>)
            | topBid # _ \<Rightarrow>
                (None, a\<lparr>status := Sold,
                          winnerId := Some (bidderId topBid),
                          winnerName := Some (bidderName topBid)\<rparr>))
         else (None, a\<lparr>status := Ended\<rparr>))
      else (None, a))"

text \<open>\<^verbatim>\<open>Array.prototype.forEach\<close> with a callback that updates the element in place and may throw:
  the elements after the one that throws are not visited.\<close>

fun forEach :: "('a \<Rightarrow> error option \<times> 'a) \<Rightarrow> 'a list \<Rightarrow> error option \<times> 'a list" where
  "forEach f [] = (None, [])"
| "forEach f (x # xs) =
     (case f x of
        (Some e, x') \<Rightarrow> (Some e, x' # xs)
      | (None, x') \<Rightarrow> (case forEach f xs of (r, xs') \<Rightarrow> (r, x' # xs')))"

definition checkAndEndAuctions :: "time \<Rightarrow> AuctionService \<Rightarrow> error option \<times> AuctionService" where
  "checkAndEndAuctions now s =
     (case forEach (endAuction (bids s) now) (auctions s) of
        (r, as) \<Rightarrow> (r, s\<lparr>auctions := as\<rparr>))"

text \<open>A method that starts with \<^verbatim>\<open>this.checkAndEndAuctions()\<close> and goes on with \<open>k\<close>.\<close>

definition afterExpiry :: "time \<Rightarrow> (AuctionService \<Rightarrow> 'a outcome) \<Rightarrow> AuctionService \<Rightarrow> 'a outcome" where
  "afterExpiry now k s =
     (case checkAndEndAuctions now s of
        (Some e, s') \<Rightarrow> (Inl e, s')
      | (None, s') \<Rightarrow> k s')"


subsection \<open>Reads\<close>

definition getActiveAuctions :: "time \<Rightarrow> AuctionService \<Rightarrow> auction list outcome" where
  "getActiveAuctions now =
     afterExpiry now (\<lambda>s. (Inr (sort_key endsAt (filter (\<lambda>a. status a = Active) (auctions s))), s))"

definition getAllAuctions :: "time \<Rightarrow> AuctionService \<Rightarrow> auction list outcome" where
  "getAllAuctions now =
     afterExpiry now (\<lambda>s. (Inr (sort_key (\<lambda>a. - createdAt a) (auctions s)), s))"

definition getAuctionById :: "time \<Rightarrow> int \<Rightarrow> AuctionService \<Rightarrow> auction outcome" where
  "getAuctionById now i =
     afterExpiry now (\<lambda>s.
       case find (\<lambda>a. a_id a = i) (auctions s) of
         None \<Rightarrow> (Inl AuctionNotFound, s)
       | Some a \<Rightarrow> (Inr a, s))"

definition getAuctionsBySeller :: "time \<Rightarrow> int \<Rightarrow> AuctionService \<Rightarrow> auction list outcome" where
  "getAuctionsBySeller now seller =
     afterExpiry now (\<lambda>s.
       (Inr (sort_key (\<lambda>a. - createdAt a) (filter (\<lambda>a. sellerId a = seller) (auctions s))), s))"

definition getAuctionsByBidder :: "time \<Rightarrow> int \<Rightarrow> AuctionService \<Rightarrow> auction list outcome" where
  "getAuctionsByBidder now bidder =
     afterExpiry now (\<lambda>s.
       let bidAuctionIds = remdups (map auctionId (filter (\<lambda>b. bidderId b = bidder) (bids s)))
       in (Inr (sort_key (\<lambda>a. - createdAt a)
                 (filter (\<lambda>a. a_id a \<in> set bidAuctionIds) (auctions s))), s))"

text \<open>
  \<^verbatim>\<open>searchAuctions\<close> filters by a case-insensitive substring test on four text fields;
  the test is the parameter \<open>matches\<close>.
\<close>

definition searchAuctions ::
  "(string \<Rightarrow> auction \<Rightarrow> bool) \<Rightarrow> time \<Rightarrow> string \<Rightarrow> AuctionService \<Rightarrow> auction list outcome" where
  "searchAuctions matches now term =
     afterExpiry now (\<lambda>s. (Inr (filter (matches term) (auctions s)), s))"

definition getActiveAuctionCount :: "time \<Rightarrow> AuctionService \<Rightarrow> nat outcome" where
  "getActiveAuctionCount now =
     afterExpiry now (\<lambda>s. (Inr (length (filter (\<lambda>a. status a = Active) (auctions s))), s))"

text \<open>The reads that do not start with the expiry check.\<close>

definition getBidsByAuction :: "int \<Rightarrow> AuctionService \<Rightarrow> bid list outcome" where
  "getBidsByAuction i s =
     (Inr (sort_key (\<lambda>b. - b_createdAt b) (filter (\<lambda>b. auctionId b = i) (bids s))), s)"

definition getUserHighestBid :: "int \<Rightarrow> int \<Rightarrow> AuctionService \<Rightarrow> number" where
  "getUserHighestBid i user s =
     (let userBids = filter (\<lambda>b. auctionId b = i \<and> bidderId b = user) (bids s)
      in if userBids = [] then 0 else Max (set (map amount userBids)))"

definition isHighestBidder :: "int \<Rightarrow> int \<Rightarrow> AuctionService \<Rightarrow> bool" where
  "isHighestBidder i user s =
     (case find (\<lambda>a. a_id a = i) (auctions s) of
        None \<Rightarrow> False
      | Some a \<Rightarrow>
          if bidCount a = 0 then False
          else (case bidsByAmount (bids s) i of
                  [] \<Rightarrow> False
                | topBid # _ \<Rightarrow> bidderId topBid = user))"

definition getAuctionCount :: "AuctionService \<Rightarrow> nat" where
  "getAuctionCount s = length (auctions s)"

definition getTotalBidCount :: "AuctionService \<Rightarrow> nat" where
  "getTotalBidCount s = length (bids s)"


subsection \<open>Create, bid, cancel, update\<close>

definition createAuction :: "time \<Rightarrow> auction_data \<Rightarrow> AuctionService \<Rightarrow> auction outcome" where
  "createAuction now d s =
     (let a = \<lparr> a_id = nextAuctionId s,
                sellerId = d_sellerId d,
                sellerName = d_sellerName d,
                title = d_title d,
                description = d_description d,
                imageUrl = (if d_imageUrl d = [] then ''https://picsum.photos/seed/auction-default/600/400''
                            else d_imageUrl d),
                category = d_category d,
                startingPrice = round2 (d_startingPrice d),
                currentPrice = round2 (d_startingPrice d),
                bidCount = 0,
                status = Active,
                createdAt = now,
                endsAt = d_endsAt d,
                winnerId = None,
                winnerName = None \<rparr>
      in (Inr a, s\<lparr>auctions := auctions s @ [a], nextAuctionId := nextAuctionId s + 1\<rparr>))"

text \<open>\<^verbatim>\<open>find\<close> returns the first element with the id, and the method then mutates that
  element: \<open>updateFirst\<close> rewrites the first element that satisfies \<open>P\<close>.\<close>

fun updateFirst :: "('a \<Rightarrow> bool) \<Rightarrow> ('a \<Rightarrow> 'a) \<Rightarrow> 'a list \<Rightarrow> 'a list" where
  "updateFirst P f [] = []"
| "updateFirst P f (x # xs) = (if P x then f x # xs else x # updateFirst P f xs)"

text \<open>
  The body of \<^verbatim>\<open>placeBid\<close> after its first line. \<open>now\<close> is the clock read by the deadline
  test, \<open>stamp\<close> the one that dates the bid.
\<close>

definition placeBidChecked ::
  "time \<Rightarrow> time \<Rightarrow> int \<Rightarrow> int \<Rightarrow> string \<Rightarrow> number \<Rightarrow> AuctionService \<Rightarrow> bid outcome" where
  "placeBidChecked now stamp i bidder name amt s =
     (case find (\<lambda>a. a_id a = i) (auctions s) of
        None \<Rightarrow> (Inl AuctionNotFound, s)
      | Some a \<Rightarrow>
          if status a \<noteq> Active then (Inl AuctionNoLongerActive, s)
          else if endsAt a \<le> now then (Inl AuctionHasEnded, s)
          else if sellerId a = bidder then (Inl CannotBidOnOwnAuction, s)
          else
            let minBid = round2 (currentPrice a + 1) in
            if amt < minBid then (Inl (BidMustBeAtLeast minBid), s)
            else
              let b = \<lparr> b_id = nextBidId s, auctionId = i, bidderId = bidder,
                         bidderName = name, amount = round2 amt, b_createdAt = stamp \<rparr>
              in (Inr b,
                  s\<lparr>bids := bids s @ [b],
                    nextBidId := nextBidId s + 1,
                    auctions := updateFirst (\<lambda>a. a_id a = i)
                                  (\<lambda>a. a\<lparr>currentPrice := amount b, bidCount := bidCount a + 1\<rparr>)
                                  (auctions s)\<rparr>))"

text \<open>\<^verbatim>\<open>placeBid\<close>: the expiry check at the clock \<open>swept\<close>, then the body.\<close>

definition placeBid ::
  "time \<Rightarrow> time \<Rightarrow> time \<Rightarrow> int \<Rightarrow> int \<Rightarrow> string \<Rightarrow> number \<Rightarrow> AuctionService \<Rightarrow> bid outcome" where
  "placeBid swept now stamp i bidder name amt =
     afterExpiry swept (placeBidChecked now stamp i bidder name amt)"

definition cancelAuction :: "int \<Rightarrow> int \<Rightarrow> AuctionService \<Rightarrow> auction outcome" where
  "cancelAuction i seller s =
     (case find (\<lambda>a. a_id a = i) (auctions s) of
        None \<Rightarrow> (Inl AuctionNotFound, s)
      | Some a \<Rightarrow>
          if sellerId a \<noteq> seller then (Inl CanOnlyCancelOwnAuctions, s)
          else if status a \<noteq> Active then (Inl OnlyActiveCanBeCancelled, s)
          else (Inr (a\<lparr>status := Cancelled\<rparr>),
                s\<lparr>auctions := updateFirst (\<lambda>a. a_id a = i) (\<lambda>a. a\<lparr>status := Cancelled\<rparr>) (auctions s)\<rparr>))"

definition updateAuctionStatus :: "int \<Rightarrow> auction_status \<Rightarrow> AuctionService \<Rightarrow> auction outcome" where
  "updateAuctionStatus i st s =
     (case find (\<lambda>a. a_id a = i) (auctions s) of
        None \<Rightarrow> (Inl AuctionNotFound, s)
      | Some a \<Rightarrow>
          (Inr (a\<lparr>status := st\<rparr>),
           s\<lparr>auctions := updateFirst (\<lambda>a. a_id a = i) (\<lambda>a. a\<lparr>status := st\<rparr>) (auctions s)\<rparr>))"


subsection \<open>Seed data\<close>

text \<open>
  The seed dates are relative to the moment the module is loaded: \<^verbatim>\<open>hoursFromNow\<close> reads the
  clock and moves the local hour of the day. Its result is the parameter \<open>hoursFromNow\<close> of
  the seed lists; \<^verbatim>\<open>daysFromNow\<close> and \<^verbatim>\<open>daysAgo\<close> are written as in the source. (In the
  description of the sixth auction the dash is written in ASCII.)
\<close>

definition daysFromNow :: "(number \<Rightarrow> time) \<Rightarrow> number \<Rightarrow> time" where
  "daysFromNow hoursFromNow days = hoursFromNow (days * 24)"

definition daysAgo :: "(number \<Rightarrow> time) \<Rightarrow> number \<Rightarrow> time" where
  "daysAgo hoursFromNow days = hoursFromNow (- days * 24)"

definition SEED_AUCTIONS :: "(number \<Rightarrow> time) \<Rightarrow> auction list" where
  "SEED_AUCTIONS hoursFromNow =
    [ \<lparr> a_id = 1, sellerId = 100, sellerName = ''Jane S.'',
        title = ''Vintage Mechanical Keyboard'',
        description = ''A beautiful Cherry MX Blue mechanical keyboard from the 1990s. Fully restored, all keys tested and working. Includes original keycaps and a custom USB adapter. Perfect for collectors or enthusiasts who love that classic clicky feel.'',
        imageUrl = ''https://picsum.photos/seed/mech-keyboard/600/400'',
        category = ''Electronics'',
        startingPrice = 45.00, currentPrice = 78.00, bidCount = 4, status = Active,
        createdAt = daysAgo hoursFromNow 3, endsAt = daysFromNow hoursFromNow 2,
        winnerId = None, winnerName = None \<rparr>,
      \<lparr> a_id = 2, sellerId = 998, sellerName = ''Demo U.'',
        title = ''Limited Edition Sneakers'',
        description = ''Brand new, never worn limited edition running sneakers. Size 10. Released as part of a collaboration with a famous designer. Original box and authentication card included. Only 500 pairs made worldwide.'',
        imageUrl = ''https://picsum.photos/seed/ltd-sneakers/600/400'',
        category = ''Clothing'',
        startingPrice = 120.00, currentPrice = 185.00, bidCount = 3, status = Active,
        createdAt = daysAgo hoursFromNow 2, endsAt = hoursFromNow 5,
        winnerId = None, winnerName = None \<rparr>,
      \<lparr> a_id = 3, sellerId = 101, sellerName = ''Mark J.'',
        title = ''First Edition Novel Collection'',
        description = ''A curated set of 5 first edition novels from the 1960s. All in excellent condition with original dust jackets. Includes works by acclaimed authors. A must-have for any serious book collector.'',
        imageUrl = ''https://picsum.photos/seed/first-editions/600/400'',
        category = ''Books'',
        startingPrice = 60.00, currentPrice = 95.00, bidCount = 3, status = Active,
        createdAt = daysAgo hoursFromNow 4, endsAt = daysFromNow hoursFromNow 1,
        winnerId = None, winnerName = None \<rparr>,
      \<lparr> a_id = 4, sellerId = 102, sellerName = ''Sarah W.'',
        title = ''Handmade Ceramic Vase Set'',
        description = ''Set of 3 handmade ceramic vases in earth tones. Each piece is unique with a slightly different glaze pattern. Perfect for modern or rustic home decor. Signed by the artist on the bottom.'',
        imageUrl = ''https://picsum.photos/seed/ceramic-vases/600/400'',
        category = ''Home'',
        startingPrice = 35.00, currentPrice = 52.00, bidCount = 2, status = Active,
        createdAt = daysAgo hoursFromNow 1, endsAt = daysFromNow hoursFromNow 3,
        winnerId = None, winnerName = None \<rparr>,
      \<lparr> a_id = 5, sellerId = 998, sellerName = ''Demo U.'',
        title = ''Retro Gaming Console Bundle'',
        description = ''Classic 16-bit gaming console with 2 controllers, power adapter, and 8 cartridge games. All tested and working. Console has been cleaned inside and out. Minor cosmetic wear consistent with age.'',
        imageUrl = ''https://picsum.photos/seed/retro-console/600/400'',
        category = ''Electronics'',
        startingPrice = 80.00, currentPrice = 145.00, bidCount = 5, status = Sold,
        createdAt = daysAgo hoursFromNow 10, endsAt = daysAgo hoursFromNow 1,
        winnerId = Some 101, winnerName = Some ''Mark J.'' \<rparr>,
      \<lparr> a_id = 6, sellerId = 100, sellerName = ''Jane S.'',
        title = ''Designer Sunglasses'',
        description = ''Authentic designer sunglasses with polarized lenses. Comes with original case and cleaning cloth. Barely used - selling because they don't fit my face shape. Retail price was $220.'',
        imageUrl = ''https://picsum.photos/seed/designer-shades/600/400'',
        category = ''Clothing'',
        startingPrice = 55.00, currentPrice = 55.00, bidCount = 0, status = Cancelled,
        createdAt = daysAgo hoursFromNow 7, endsAt = daysAgo hoursFromNow 2,
        winnerId = None, winnerName = None \<rparr> ]"

definition SEED_BIDS :: "(number \<Rightarrow> time) \<Rightarrow> bid list" where
  "SEED_BIDS hoursFromNow =
    [ \<lparr> b_id = 1, auctionId = 1, bidderId = 998, bidderName = ''Demo U.'', amount = 50.00, b_createdAt = daysAgo hoursFromNow 2.5 \<rparr>,
      \<lparr> b_id = 2, auctionId = 1, bidderId = 101, bidderName = ''Mark J.'', amount = 58.00, b_createdAt = daysAgo hoursFromNow 2 \<rparr>,
      \<lparr> b_id = 3, auctionId = 1, bidderId = 102, bidderName = ''Sarah W.'', amount = 65.00, b_createdAt = daysAgo hoursFromNow 1.5 \<rparr>,
      \<lparr> b_id = 4, auctionId = 1, bidderId = 998, bidderName = ''Demo U.'', amount = 78.00, b_createdAt = daysAgo hoursFromNow 1 \<rparr>,
      \<lparr> b_id = 5, auctionId = 2, bidderId = 100, bidderName = ''Jane S.'', amount = 135.00, b_createdAt = daysAgo hoursFromNow 1.5 \<rparr>,
      \<lparr> b_id = 6, auctionId = 2, bidderId = 101, bidderName = ''Mark J.'', amount = 155.00, b_createdAt = daysAgo hoursFromNow 1 \<rparr>,
      \<lparr> b_id = 7, auctionId = 2, bidderId = 100, bidderName = ''Jane S.'', amount = 185.00, b_createdAt = daysAgo hoursFromNow 0.5 \<rparr>,
      \<lparr> b_id = 8, auctionId = 3, bidderId = 998, bidderName = ''Demo U.'', amount = 70.00, b_createdAt = daysAgo hoursFromNow 3 \<rparr>,
      \<lparr> b_id = 9, auctionId = 3, bidderId = 102, bidderName = ''Sarah W.'', amount = 82.00, b_createdAt = daysAgo hoursFromNow 2 \<rparr>,
      \<lparr> b_id = 10, auctionId = 3, bidderId = 998, bidderName = ''Demo U.'', amount = 95.00, b_createdAt = daysAgo hoursFromNow 1 \<rparr>,
      \<lparr> b_id = 11, auctionId = 4, bidderId = 998, bidderName = ''Demo U.'', amount = 42.00, b_createdAt = daysAgo hoursFromNow 0.8 \<rparr>,
      \<lparr> b_id = 12, auctionId = 4, bidderId = 100, bidderName = ''Jane S.'', amount = 52.00, b_createdAt = daysAgo hoursFromNow 0.3 \<rparr>,
      \<lparr> b_id = 13, auctionId = 5, bidderId = 100, bidderName = ''Jane S.'', amount = 90.00, b_createdAt = daysAgo hoursFromNow 8 \<rparr>,
      \<lparr> b_id = 14, auctionId = 5, bidderId = 101, bidderName = ''Mark J.'', amount = 105.00, b_createdAt = daysAgo hoursFromNow 6 \<rparr>,
      \<lparr> b_id = 15, auctionId = 5, bidderId = 102, bidderName = ''Sarah W.'', amount = 120.00, b_createdAt = daysAgo hoursFromNow 4 \<rparr>,
      \<lparr> b_id = 16, auctionId = 5, bidderId = 100, bidderName = ''Jane S.'', amount = 132.00, b_createdAt = daysAgo hoursFromNow 3 \<rparr>,
      \<lparr> b_id = 17, auctionId = 5, bidderId = 101, bidderName = ''Mark J.'', amount = 145.00, b_createdAt = daysAgo hoursFromNow 2 \<rparr> ]"

text \<open>The service as its field initialisers leave it.\<close>

definition initialService :: "(number \<Rightarrow> time) \<Rightarrow> AuctionService" where
  "initialService hoursFromNow =
     \<lparr> auctions = SEED_AUCTIONS hoursFromNow, bids = SEED_BIDS hoursFromNow,
       nextAuctionId = 7, nextBidId = 18 \<rparr>"

text \<open>A load at the epoch, in a zone where the local hour is then 0: \<^verbatim>\<open>setHours\<close> drops the
  fraction of its argument.\<close>

definition hoursFromEpoch :: "number \<Rightarrow> time" where
  "hoursFromEpoch hours = (if 0 \<le> hours then \<lfloor>hours\<rfloor> else \<lceil>hours\<rceil>) * 3600000"


subsection \<open>Calls and reachable states\<close>

text \<open>
  One call of a public method takes the service from \<open>s\<close> to \<open>s'\<close>. The methods that only
  read fields (\<^verbatim>\<open>getBidsByAuction\<close>, \<^verbatim>\<open>getCategories\<close>, \<^verbatim>\<open>getUserHighestBid\<close>,
  \<^verbatim>\<open>isHighestBidder\<close>, \<^verbatim>\<open>getAuctionCount\<close>, \<^verbatim>\<open>getTotalBidCount\<close>) leave it as it is.
\<close>

inductive step :: "AuctionService \<Rightarrow> AuctionService \<Rightarrow> bool" where
  step_getActiveAuctions: "step s (snd (getActiveAuctions now s))"
| step_getAllAuctions: "step s (snd (getAllAuctions now s))"
| step_getAuctionById: "step s (snd (getAuctionById now i s))"
| step_getAuctionsBySeller: "step s (snd (getAuctionsBySeller now seller s))"
| step_getAuctionsByBidder: "step s (snd (getAuctionsByBidder now bidder s))"
| step_searchAuctions: "step s (snd (searchAuctions matches now query s))"
| step_getActiveAuctionCount: "step s (snd (getActiveAuctionCount now s))"
| step_getBidsByAuction: "step s (snd (getBidsByAuction i s))"
| step_unchanged: "step s s"
| step_createAuction: "step s (snd (createAuction now d s))"
| step_placeBid: "step s (snd (placeBid swept now stamp i bidder bname amt s))"
| step_cancelAuction: "step s (snd (cancelAuction i seller s))"
| step_updateAuctionStatus: "step s (snd (updateAuctionStatus i st s))"

inductive reachable :: "AuctionService \<Rightarrow> bool" where
  reachable_initial: "reachable (initialService hoursFromNow)"
| reachable_step: "reachable s \<Longrightarrow> step s s' \<Longrightarrow> reachable s'"

text \<open>The bids the ledger holds for one auction, and what the ledger says the price and
  the count of an auction are.\<close>

definition bidsOf :: "AuctionService \<Rightarrow> int \<Rightarrow> bid list" where
  "bidsOf s i = filter (\<lambda>b. auctionId b = i) (bids s)"

definition ledgerPrice :: "AuctionService \<Rightarrow> auction \<Rightarrow> number" where
  "ledgerPrice s a = fold max (map amount (bidsOf s (a_id a))) (startingPrice a)"

text \<open>
  The facts that hold of the seed and that every call keeps: ids are distinct and below the
  counter, every bid belongs to an auction, prices have two decimals, and price and count
  agree with the ledger.
\<close>

definition consistent :: "AuctionService \<Rightarrow> bool" where
  "consistent s \<longleftrightarrow>
     distinct (map a_id (auctions s)) \<and>
     (\<forall>a \<in> set (auctions s). a_id a < nextAuctionId s) \<and>
     (\<forall>b \<in> set (bids s). auctionId b \<in> set (map a_id (auctions s))) \<and>
     (\<forall>a \<in> set (auctions s).
        round2 (currentPrice a) = currentPrice a \<and>
        currentPrice a = ledgerPrice s a \<and>
        bidCount a = int (length (bidsOf s (a_id a))))"


text \<open>What the ledger facts of an auction depend on.\<close>

definition sameLedger :: "auction \<Rightarrow> auction \<Rightarrow> bool" where
  "sameLedger a a' \<longleftrightarrow>
     a_id a' = a_id a \<and> startingPrice a' = startingPrice a \<and>
     currentPrice a' = currentPrice a \<and> bidCount a' = bidCount a"




section \<open>The order service (order.service.ts)\<close>

datatype order_status = Pending | Processing | Shipped | Delivered | OrderCancelled

record OrderItem =
  i_id :: int
  order_id :: int
  product_id :: int
  quantity :: int
  price_at_purchase :: number
  i_name :: "string option"
  i_image :: "string option"
  i_category :: "string option"

record Order =
  o_id :: int
  orderNumber :: string
  user_id :: int
  o_status :: order_status
  subtotal :: number
  tax :: number
  fees :: number
  total :: number
  shipping_address :: string
  created_at :: time
  email :: "string option"
  first_name :: "string option"
  last_name :: "string option"
  items :: "OrderItem list option"

record OrderService =
  orders :: "Order list"
  nextId :: int
  nextOrderNum :: int

definition TAX_RATE :: number where
  "TAX_RATE = 0.0825"

definition FLAT_FEE :: number where
  "FLAT_FEE = 4.99"

definition buildOrder ::
  "int \<Rightarrow> string \<Rightarrow> int \<Rightarrow> order_status \<Rightarrow> time \<Rightarrow> string \<Rightarrow> string \<Rightarrow> string \<Rightarrow> string \<Rightarrow>
   OrderItem list \<Rightarrow> Order" where
  "buildOrder i num userId st createdAt' address email' firstName lastName its =
     (let subtotal' = round2 (foldl (\<lambda>s i. s + price_at_purchase i * of_int (quantity i)) 0 its);
          tax' = round2 (subtotal' * TAX_RATE);
          fees' = FLAT_FEE;
          total' = round2 (subtotal' + tax' + fees')
      in \<lparr> o_id = i, orderNumber = num, user_id = userId, o_status = st,
           subtotal = subtotal', tax = tax', fees = fees', total = total',
           shipping_address = address, created_at = createdAt',
           email = Some email', first_name = Some firstName, last_name = Some lastName,
           items = Some its \<rparr>)"

text \<open>The seed orders; the dates are the milliseconds of the ISO strings of the source.\<close>

definition SEED_ORDERS :: "Order list" where
  "SEED_ORDERS =
    [ buildOrder 1 ''ORD-10001'' 998 Pending 1765794180000
        ''742 Evergreen Terrace, Springfield, IL 62704''
        ''user@shopng.com'' ''Demo'' ''User''
        [ \<lparr> i_id = 1, order_id = 1, product_id = 1, quantity = 1, price_at_purchase = 79.99,
            i_name = Some ''Wireless Bluetooth Headphones'',
            i_image = Some ''https://picsum.photos/seed/headphones/400/400'',
            i_category = Some ''Electronics'' \<rparr>,
          \<lparr> i_id = 2, order_id = 1, product_id = 10, quantity = 2, price_at_purchase = 29.99,
            i_name = Some ''Ceramic Plant Pot Set'',
            i_image = Some ''https://picsum.photos/seed/plant-pots/400/400'',
            i_category = Some ''Home'' \<rparr> ],
      buildOrder 2 ''ORD-10002'' 100 Processing 1767451500000
        ''1600 Pennsylvania Ave NW, Washington, DC 20500''
        ''jane.smith@example.com'' ''Jane'' ''Smith''
        [ \<lparr> i_id = 3, order_id = 2, product_id = 2, quantity = 1, price_at_purchase = 199.99,
            i_name = Some ''Smart Watch Pro'',
            i_image = Some ''https://picsum.photos/seed/smartwatch/400/400'',
            i_category = Some ''Electronics'' \<rparr> ],
      buildOrder 3 ''ORD-10003'' 101 Shipped 1769073120000
        ''350 Fifth Avenue, New York, NY 10118''
        ''mark.johnson@example.com'' ''Mark'' ''Johnson''
        [ \<lparr> i_id = 4, order_id = 3, product_id = 7, quantity = 1, price_at_purchase = 34.99,
            i_name = Some ''The Art of Clean Code'',
            i_image = Some ''https://picsum.photos/seed/coding-book/400/400'',
            i_category = Some ''Books'' \<rparr>,
          \<lparr> i_id = 5, order_id = 3, product_id = 8, quantity = 1, price_at_purchase = 44.99,
            i_name = Some ''Modern JavaScript Deep Dive'',
            i_image = Some ''https://picsum.photos/seed/js-book/400/400'',
            i_category = Some ''Books'' \<rparr>,
          \<lparr> i_id = 6, order_id = 3, product_id = 9, quantity = 1, price_at_purchase = 39.99,
            i_name = Some ''Design Patterns Handbook'',
            i_image = Some ''https://picsum.photos/seed/patterns-book/400/400'',
            i_category = Some ''Books'' \<rparr> ],
      buildOrder 4 ''ORD-10004'' 102 Delivered 1769963400000
        ''221B Baker Street, London, CA 90210''
        ''sarah.williams@example.com'' ''Sarah'' ''Williams''
        [ \<lparr> i_id = 7, order_id = 4, product_id = 4, quantity = 1, price_at_purchase = 89.99,
            i_name = Some ''Classic Denim Jacket'',
            i_image = Some ''https://picsum.photos/seed/denim-jacket/400/400'',
            i_category = Some ''Clothing'' \<rparr>,
          \<lparr> i_id = 8, order_id = 4, product_id = 5, quantity = 1, price_at_purchase = 129.99,
            i_name = Some ''Running Sneakers Ultra'',
            i_image = Some ''https://picsum.photos/seed/sneakers/400/400'',
            i_category = Some ''Clothing'' \<rparr> ],
      buildOrder 5 ''ORD-10005'' 998 OrderCancelled 1770721500000
        ''742 Evergreen Terrace, Springfield, IL 62704''
        ''user@shopng.com'' ''Demo'' ''User''
        [ \<lparr> i_id = 9, order_id = 5, product_id = 11, quantity = 3, price_at_purchase = 54.99,
            i_name = Some ''LED Desk Lamp'',
            i_image = Some ''https://picsum.photos/seed/desk-lamp/400/400'',
            i_category = Some ''Home'' \<rparr> ] ]"

definition initialOrderService :: OrderService where
  "initialOrderService = \<lparr> orders = SEED_ORDERS, nextId = 6, nextOrderNum = 10006 \<rparr>"

text \<open>\<^verbatim>\<open>updateOrderStatus\<close>: \<^verbatim>\<open>findIndex\<close>, then the element at that index is replaced by a copy
  with the new status. The type of \<^verbatim>\<open>status\<close> admits the five statuses only.\<close>

fun findIndex :: "('a \<Rightarrow> bool) \<Rightarrow> 'a list \<Rightarrow> nat option" where
  "findIndex P [] = None"
| "findIndex P (x # xs) = (if P x then Some 0 else map_option Suc (findIndex P xs))"


definition getTotalRevenue :: "OrderService \<Rightarrow> number" where
  "getTotalRevenue s =
     round2 (foldl (\<lambda>sum ord. sum + total ord) 0 (filter (\<lambda>ord. o_status ord \<noteq> OrderCancelled) (orders s)))"

definition getOrderCount :: "OrderService \<Rightarrow> nat" where
  "getOrderCount s = length (orders s)"


text \<open>The orders that are not cancelled, and the sum over the items of an order in the words
  of the specification.\<close>

definition nonCancelled :: "OrderService \<Rightarrow> Order list" where
  "nonCancelled s = filter (\<lambda>ord. o_status ord \<noteq> OrderCancelled) (orders s)"

definition cancelled :: "OrderService \<Rightarrow> Order list" where
  "cancelled s = filter (\<lambda>ord. o_status ord = OrderCancelled) (orders s)"




section \<open>The order routes of the backend (routes/orders.js)\<close>


























section \<open>The review service\<close>

datatype review_status = Approved | PendingReview | Rejected

record Review =
  r_id :: int
  productId :: int
  userId :: int
  userName :: string
  rating :: number
  r_title :: string
  comment :: string
  r_createdAt :: time
  helpful :: int
  r_status :: review_status

record ReviewService =
  reviews :: "Review list"
  r_nextId :: int

definition getAverageRating :: "int \<Rightarrow> ReviewService \<Rightarrow> number" where
  "getAverageRating pid s =
     (let approved = filter (\<lambda>r. productId r = pid \<and> r_status r = Approved) (reviews s)
      in if length approved = 0 then 0
         else
           let sum = foldl (\<lambda>s r. s + rating r) 0 approved
           in of_int (Math_round ((sum / of_nat (length approved)) * 10)) / 10)"

text \<open>The mean in the words of the specification: the sum of the ratings of the approved
  reviews of the product over their number, rounded to one decimal.\<close>

definition approvedRatings :: "int \<Rightarrow> ReviewService \<Rightarrow> number list" where
  "approvedRatings pid s = map rating (filter (\<lambda>r. productId r = pid \<and> r_status r = Approved) (reviews s))"

definition round1 :: "number \<Rightarrow> number" where
  "round1 x = of_int \<lfloor>x * 10 + 1 / 2\<rfloor> / 10"

definition spec_averageRating :: "int \<Rightarrow> ReviewService \<Rightarrow> number" where
  "spec_averageRating pid s =
     (if approvedRatings pid s = [] then 0
      else round1 (sum_list (approvedRatings pid s) / of_nat (length (approvedRatings pid s))))"


text \<open>The three seed reviews of the second product: two approved, one pending.\<close>

definition seedReviewsOfProduct2 :: "Review list" where
  "seedReviewsOfProduct2 =
    [ \<lparr> r_id = 4, productId = 2, userId = 102, userName = ''Sarah W.'', rating = 5,
        r_title = ''Love the health tracking'',
        comment = ''The heart rate monitor and sleep tracking are incredibly accurate. Syncs perfectly with my phone. Battery lasts about 3 days.'',
        r_createdAt = 1770290400000, helpful = 12, r_status = Approved \<rparr>,
      \<lparr> r_id = 5, productId = 2, userId = 998, userName = ''Demo U.'', rating = 4,
        r_title = ''Stylish and functional'',
        comment = ''Looks great on the wrist and the notifications are handy. Wish the screen was a bit brighter outdoors.'',
        r_createdAt = 1768464000000, helpful = 5, r_status = Approved \<rparr>,
      \<lparr> r_id = 12, productId = 2, userId = 101, userName = ''Mark J.'', rating = 2,
        r_title = ''Battery died after 2 months'',
        comment = ''Worked great initially but the battery started draining in hours. Might be a defective unit. Waiting on support.'',
        r_createdAt = 1771444800000, helpful = 0, r_status = PendingReview \<rparr> ]"


section \<open>Rounding\<close>


lemma round2_mono: "x \<le> y \<Longrightarrow> round2 x \<le> round2 y"
  unfolding round2_def Math_round_def
  by (intro divide_right_mono) (simp_all add: floor_mono)

lemma round2_cents: "round2 (of_int k / 100) = of_int k / 100"
  by (simp add: round2_def Math_round_def floor_eq_iff)

lemma round2_idem: "round2 (round2 x) = round2 x"
  unfolding round2_def[of x] by (rule round2_cents)


lemma round2_gt: "x - 1 / 200 < round2 x"
proof -
  have "x * 100 + 1 / 2 < of_int \<lfloor>x * 100 + 1 / 2\<rfloor> + 1" by linarith
  then show ?thesis by (simp add: round2_def Math_round_def field_simps)
qed

lemma round2_le: "round2 x \<le> x + 1 / 200"
proof -
  have "of_int \<lfloor>x * 100 + 1 / 2\<rfloor> \<le> x * 100 + 1 / 2" by linarith
  then show ?thesis by (simp add: round2_def Math_round_def field_simps)
qed

lemma minBid_gt: "x < round2 (x + 1)"
  using round2_gt[of "x + 1"] by simp

lemma bid_ge: "round2 (c + 1) \<le> amt \<Longrightarrow> c < round2 amt"
  using round2_mono[of "round2 (c + 1)" amt] round2_idem[of "c + 1"] minBid_gt[of c] by simp

section \<open>Lists, the expiry sweep and lookups\<close>

lemma forEach_rel:
  "forEach f xs = (r, xs') \<Longrightarrow> list_all2 (\<lambda>x x'. x' = x \<or> x' = snd (f x)) xs xs'"
proof (induction xs arbitrary: r xs')
  case Nil
  then show ?case by simp
next
  case (Cons x xs)
  obtain e x' where fx: "f x = (e, x')" by (cases "f x")
  show ?case
  proof (cases e)
    case (Some err)
    with Cons.prems fx have "xs' = x' # xs" by simp
    with fx show ?thesis by (simp add: list_all2_refl)
  next
    case None
    obtain r0 ys where rec: "forEach f xs = (r0, ys)" by (cases "forEach f xs")
    with Cons.prems fx None have "xs' = x' # ys" by simp
    with fx Cons.IH[OF rec] show ?thesis by simp
  qed
qed

lemma forEach_ok:
  "(\<And>x. x \<in> set xs \<Longrightarrow> fst (f x) = None) \<Longrightarrow> forEach f xs = (None, map (\<lambda>x. snd (f x)) xs)"
proof (induction xs)
  case Nil
  then show ?case by simp
next
  case (Cons x xs)
  then have "fst (f x) = None" by simp
  then obtain x' where "f x = (None, x')" by (cases "f x") simp
  with Cons show ?case by simp
qed

lemma find_rel:
  assumes "list_all2 R xs xs'" and "\<And>x x'. R x x' \<Longrightarrow> P x' = P x"
  shows "rel_option R (find P xs) (find P xs')"
  using assms(1)
proof (induction rule: list_all2_induct)
  case Nil
  then show ?case by simp
next
  case (Cons x xs y ys)
  with assms(2)[of x y] show ?case by simp
qed

lemma find_updateFirst_same:
  "find P xs = Some a \<Longrightarrow> P (f a) \<Longrightarrow> find P (updateFirst P f xs) = Some (f a)"
  by (induction xs) (auto split: if_splits)


lemma length_updateFirst: "length (updateFirst P f xs) = length xs"
  by (induction xs) auto

lemma endAuction_a_id: "a_id (snd (endAuction bs now a)) = a_id a"
  by (simp add: endAuction_def split: list.splits)


lemma endAuction_terminal: "status a \<noteq> Active \<Longrightarrow> endAuction bs now a = (None, a)"
  by (simp add: endAuction_def)

lemma floor_rat_numeral [simp]:
  "\<lfloor>numeral a / numeral b :: rat\<rfloor> = numeral a div numeral b"
  using floor_divide_of_int_eq[of "numeral a" "numeral b", where ?'a = rat] by simp

lemma floor_rat_neg_numeral [simp]:
  "\<lfloor>- (numeral a / numeral b) :: rat\<rfloor> = - numeral a div numeral b"
  using floor_divide_of_int_eq[of "- numeral a" "numeral b", where ?'a = rat] by simp

lemma checkAndEndAuctions_rel:
  "list_all2 (\<lambda>a a'. a' = a \<or> a' = snd (endAuction (bids s) now a))
     (auctions s) (auctions (snd (checkAndEndAuctions now s)))"
proof -
  obtain r as where fe: "forEach (endAuction (bids s) now) (auctions s) = (r, as)"
    by (cases "forEach (endAuction (bids s) now) (auctions s)")
  then have "auctions (snd (checkAndEndAuctions now s)) = as"
    by (simp add: checkAndEndAuctions_def)
  with forEach_rel[OF fe] show ?thesis by simp
qed

lemma find_after_expiry:
  assumes "find (\<lambda>a. a_id a = i) (auctions s) = Some a"
  shows "\<exists>a'. find (\<lambda>a. a_id a = i) (auctions (snd (checkAndEndAuctions now s))) = Some a'
           \<and> (a' = a \<or> a' = snd (endAuction (bids s) now a))"
proof -
  have "rel_option (\<lambda>a a'. a' = a \<or> a' = snd (endAuction (bids s) now a))
          (find (\<lambda>a. a_id a = i) (auctions s))
          (find (\<lambda>a. a_id a = i) (auctions (snd (checkAndEndAuctions now s))))"
    by (rule find_rel[OF checkAndEndAuctions_rel]) (auto simp: endAuction_a_id)
  with assms show ?thesis by (auto simp: option_rel_Some1)
qed



section \<open>The invariant of the auction service\<close>

lemma updateFirst_rel:
  "(\<And>x. R x x) \<Longrightarrow> (\<And>x. P x \<Longrightarrow> R x (f x)) \<Longrightarrow> list_all2 R xs (updateFirst P f xs)"
  by (induction xs) (auto simp: list_all2_refl)

lemma updateFirst_distinct:
  "distinct (map key xs) \<Longrightarrow>
   updateFirst (\<lambda>x. key x = i) f xs = map (\<lambda>x. if key x = i then f x else x) xs"
proof (induction xs)
  case Nil
  then show ?case by simp
next
  case (Cons x xs)
  show ?case
  proof (cases "key x = i")
    case True
    from Cons.prems have "key x \<notin> key ` set xs" by simp
    then have "\<forall>y \<in> set xs. key y \<noteq> key x" by (metis imageI)
    with True have "\<forall>y \<in> set xs. key y \<noteq> i" by simp
    then have "map (\<lambda>x. if key x = i then f x else x) xs = xs" by (simp add: map_idI)
    with True show ?thesis by simp
  next
    case False
    with Cons show ?thesis by simp
  qed
qed

lemma fold_max_snoc: "fold max (xs @ [x]) (s::rat) = max x (fold max xs s)"
  by simp

lemma fold_max_Max: "fold max xs (s::rat) = Max (insert s (set xs))"
  using Max.set_eq_fold[of s xs] by simp

lemma consistentI:
  assumes "distinct (map a_id (auctions s))"
    and "\<And>a. a \<in> set (auctions s) \<Longrightarrow> a_id a < nextAuctionId s"
    and "\<And>b. b \<in> set (bids s) \<Longrightarrow> auctionId b \<in> set (map a_id (auctions s))"
    and "\<And>a. a \<in> set (auctions s) \<Longrightarrow> round2 (currentPrice a) = currentPrice a"
    and "\<And>a. a \<in> set (auctions s) \<Longrightarrow> currentPrice a = ledgerPrice s a"
    and "\<And>a. a \<in> set (auctions s) \<Longrightarrow> bidCount a = int (length (bidsOf s (a_id a)))"
  shows "consistent s"
  unfolding consistent_def using assms by blast

lemma consistentD:
  assumes "consistent s"
  shows "distinct (map a_id (auctions s))"
    and "\<And>a. a \<in> set (auctions s) \<Longrightarrow> a_id a < nextAuctionId s"
    and "\<And>b. b \<in> set (bids s) \<Longrightarrow> auctionId b \<in> set (map a_id (auctions s))"
    and "\<And>a. a \<in> set (auctions s) \<Longrightarrow> round2 (currentPrice a) = currentPrice a"
    and "\<And>a. a \<in> set (auctions s) \<Longrightarrow> currentPrice a = ledgerPrice s a"
    and "\<And>a. a \<in> set (auctions s) \<Longrightarrow> bidCount a = int (length (bidsOf s (a_id a)))"
  using assms unfolding consistent_def by blast+

lemma sameLedger_refl: "sameLedger a a"
  by (simp add: sameLedger_def)

lemma endAuction_sameLedger: "sameLedger a (snd (endAuction bs now a))"
  by (simp add: sameLedger_def endAuction_def split: list.splits)

lemma consistent_sameLedger:
  assumes c: "consistent s" and r: "list_all2 sameLedger (auctions s) as"
  shows "consistent (s\<lparr>auctions := as\<rparr>)"
proof (rule consistentI)
  have ids: "map a_id as = map a_id (auctions s)"
    using r by (induction rule: list_all2_induct) (auto simp: sameLedger_def)
  have each: "\<And>a'. a' \<in> set as \<Longrightarrow> \<exists>a \<in> set (auctions s). sameLedger a a'"
    using r by (induction rule: list_all2_induct) auto
  show "distinct (map a_id (auctions (s\<lparr>auctions := as\<rparr>)))"
    using consistentD(1)[OF c] ids by simp
  show "\<And>b. b \<in> set (bids (s\<lparr>auctions := as\<rparr>)) \<Longrightarrow>
          auctionId b \<in> set (map a_id (auctions (s\<lparr>auctions := as\<rparr>)))"
    using consistentD(3)[OF c] ids by simp
  fix a' assume "a' \<in> set (auctions (s\<lparr>auctions := as\<rparr>))"
  then have "a' \<in> set as" by simp
  with each obtain a where a: "a \<in> set (auctions s)" "sameLedger a a'" by blast
  from a(2) have B: "a_id a' = a_id a" "startingPrice a' = startingPrice a"
    "currentPrice a' = currentPrice a" "bidCount a' = bidCount a"
    by (simp_all add: sameLedger_def)
  have L: "ledgerPrice (s\<lparr>auctions := as\<rparr>) a' = ledgerPrice s a"
    using B by (simp add: ledgerPrice_def bidsOf_def)
  have N: "bidsOf (s\<lparr>auctions := as\<rparr>) (a_id a) = bidsOf s (a_id a)"
    by (simp add: bidsOf_def)
  show "a_id a' < nextAuctionId (s\<lparr>auctions := as\<rparr>)"
    using consistentD(2)[OF c a(1)] B by simp
  show "round2 (currentPrice a') = currentPrice a'"
    using consistentD(4)[OF c a(1)] B by simp
  show "currentPrice a' = ledgerPrice (s\<lparr>auctions := as\<rparr>) a'"
    using consistentD(5)[OF c a(1)] B L by simp
  show "bidCount a' = int (length (bidsOf (s\<lparr>auctions := as\<rparr>) (a_id a')))"
    using consistentD(6)[OF c a(1)] B N by simp
qed

lemma consistent_checkAndEndAuctions:
  "consistent s \<Longrightarrow> consistent (snd (checkAndEndAuctions now s))"
proof -
  assume c: "consistent s"
  have "list_all2 sameLedger (auctions s) (auctions (snd (checkAndEndAuctions now s)))"
    by (rule list_all2_mono[OF checkAndEndAuctions_rel])
      (auto simp: sameLedger_refl endAuction_sameLedger)
  from consistent_sameLedger[OF c this]
  show ?thesis by (simp add: checkAndEndAuctions_def split: prod.splits)
qed

lemma consistent_cancelAuction:
  "consistent s \<Longrightarrow> consistent (snd (cancelAuction i seller s))"
proof -
  assume c: "consistent s"
  have "list_all2 sameLedger (auctions s)
          (updateFirst (\<lambda>a. a_id a = i) (\<lambda>a. a\<lparr>status := Cancelled\<rparr>) (auctions s))"
    by (rule updateFirst_rel) (simp_all add: sameLedger_def)
  from consistent_sameLedger[OF c this] c
  show ?thesis by (simp add: cancelAuction_def split: option.splits)
qed

lemma consistent_updateAuctionStatus:
  "consistent s \<Longrightarrow> consistent (snd (updateAuctionStatus i st s))"
proof -
  assume c: "consistent s"
  have "list_all2 sameLedger (auctions s)
          (updateFirst (\<lambda>a. a_id a = i) (\<lambda>a. a\<lparr>status := st\<rparr>) (auctions s))"
    by (rule updateFirst_rel) (simp_all add: sameLedger_def)
  from consistent_sameLedger[OF c this] c
  show ?thesis by (simp add: updateAuctionStatus_def split: option.splits)
qed

lemma consistent_createAuction:
  assumes c: "consistent s"
  shows "consistent (snd (createAuction now d s))"
proof -
  let ?a = "\<lparr> a_id = nextAuctionId s, sellerId = d_sellerId d, sellerName = d_sellerName d,
              title = d_title d, description = d_description d,
              imageUrl = (if d_imageUrl d = [] then ''https://picsum.photos/seed/auction-default/600/400''
                          else d_imageUrl d),
              category = d_category d, startingPrice = round2 (d_startingPrice d),
              currentPrice = round2 (d_startingPrice d), bidCount = 0, status = Active,
              createdAt = now, endsAt = d_endsAt d, winnerId = None, winnerName = None \<rparr>"
  let ?s' = "s\<lparr>auctions := auctions s @ [?a], nextAuctionId := nextAuctionId s + 1\<rparr>"
  have eq: "snd (createAuction now d s) = ?s'"
    by (simp add: createAuction_def Let_def)
  have fresh: "nextAuctionId s \<notin> set (map a_id (auctions s))"
    using consistentD(2)[OF c] by fastforce
  have nobids: "bidsOf s (nextAuctionId s) = []"
  proof -
    have "\<forall>b \<in> set (bids s). auctionId b \<noteq> nextAuctionId s"
      using consistentD(3)[OF c] fresh by metis
    then show ?thesis by (simp add: bidsOf_def filter_empty_conv)
  qed
  have bo: "\<And>k. bidsOf ?s' k = bidsOf s k" by (simp add: bidsOf_def)
  have "consistent ?s'"
  proof (rule consistentI)
    show "distinct (map a_id (auctions ?s'))" using consistentD(1)[OF c] fresh by simp
    show "\<And>b. b \<in> set (bids ?s') \<Longrightarrow> auctionId b \<in> set (map a_id (auctions ?s'))"
      using consistentD(3)[OF c] by auto
    fix a assume "a \<in> set (auctions ?s')"
    then consider "a \<in> set (auctions s)" | "a = ?a" by auto
    then show "a_id a < nextAuctionId ?s'"
      using consistentD(2)[OF c] by cases force+
    from \<open>a \<in> set (auctions ?s')\<close> consider "a \<in> set (auctions s)" | "a = ?a" by auto
    then show "round2 (currentPrice a) = currentPrice a"
      using consistentD(4)[OF c] by cases (simp_all add: round2_idem)
    from \<open>a \<in> set (auctions ?s')\<close> consider "a \<in> set (auctions s)" | "a = ?a" by auto
    then show "currentPrice a = ledgerPrice ?s' a"
    proof cases
      case 1
      with consistentD(5)[OF c] show ?thesis by (simp add: ledgerPrice_def bo)
    next
      case 2
      with nobids show ?thesis by (simp add: ledgerPrice_def bo)
    qed
    from \<open>a \<in> set (auctions ?s')\<close> consider "a \<in> set (auctions s)" | "a = ?a" by auto
    then show "bidCount a = int (length (bidsOf ?s' (a_id a)))"
    proof cases
      case 1
      with consistentD(6)[OF c] show ?thesis by (simp add: bo)
    next
      case 2
      with nobids show ?thesis by (simp add: bo)
    qed
  qed
  with eq show ?thesis by simp
qed

lemma consistent_placeBidChecked:
  assumes c: "consistent s"
  shows "consistent (snd (placeBidChecked now stamp i bidder bname amt s))"
proof (cases "isl (fst (placeBidChecked now stamp i bidder bname amt s))")
  case True
  then have "snd (placeBidChecked now stamp i bidder bname amt s) = s"
    by (auto simp: placeBidChecked_def Let_def split: option.splits if_splits)
  with c show ?thesis by simp
next
  case False
  then obtain a0 where f: "find (\<lambda>a. a_id a = i) (auctions s) = Some a0"
    and ok: "round2 (currentPrice a0 + 1) \<le> amt"
    by (auto simp: placeBidChecked_def Let_def split: option.splits if_splits)
  let ?b = "\<lparr> b_id = nextBidId s, auctionId = i, bidderId = bidder, bidderName = bname,
             amount = round2 amt, b_createdAt = stamp \<rparr>"
  let ?f = "\<lambda>a. a\<lparr>currentPrice := round2 amt, bidCount := bidCount a + 1\<rparr>"
  let ?as = "map (\<lambda>a. if a_id a = i then ?f a else a) (auctions s)"
  let ?s' = "s\<lparr>bids := bids s @ [?b], nextBidId := nextBidId s + 1, auctions := ?as\<rparr>"
  have d: "distinct (map a_id (auctions s))" by (rule consistentD(1)[OF c])
  have eq: "snd (placeBidChecked now stamp i bidder bname amt s) = ?s'"
    using False f by (auto simp: placeBidChecked_def Let_def updateFirst_distinct[OF d] split: if_splits)
  have a0: "a0 \<in> set (auctions s)" "a_id a0 = i"
    using f by (auto simp: find_Some_iff in_set_conv_nth)
  have inj: "inj_on a_id (set (auctions s))" using d by (simp add: distinct_map)
  have uniq: "\<And>a. a \<in> set (auctions s) \<Longrightarrow> a_id a = i \<Longrightarrow> a = a0"
    using inj_onD[OF inj _ _ a0(1)] a0(2) by simp
  have ids: "a_id \<circ> (\<lambda>a. if a_id a = i then ?f a else a) = a_id" by (auto simp: fun_eq_iff)
  have bo_i: "bidsOf ?s' i = bidsOf s i @ [?b]" by (simp add: bidsOf_def)
  have bo_k: "\<And>k. k \<noteq> i \<Longrightarrow> bidsOf ?s' k = bidsOf s k" by (simp add: bidsOf_def)
  have "consistent ?s'"
  proof (rule consistentI)
    show "distinct (map a_id (auctions ?s'))" using d by (simp add: ids)
    have "i \<in> set (map a_id (auctions s))" using a0 by force
    then show "\<And>b. b \<in> set (bids ?s') \<Longrightarrow> auctionId b \<in> set (map a_id (auctions ?s'))"
      using consistentD(3)[OF c] by (auto simp: ids)
    fix a' assume "a' \<in> set (auctions ?s')"
    then obtain a where a: "a \<in> set (auctions s)" "a' = (if a_id a = i then ?f a else a)" by auto
    show "a_id a' < nextAuctionId ?s'" using consistentD(2)[OF c a(1)] a(2) by simp
    show "round2 (currentPrice a') = currentPrice a'"
      using consistentD(4)[OF c a(1)] a(2) by (simp add: round2_idem)
    show "currentPrice a' = ledgerPrice ?s' a'"
    proof (cases "a_id a = i")
      case True
      with uniq a(1) have "a = a0" by simp
      with consistentD(5)[OF c a0(1)] have "ledgerPrice s a = currentPrice a0" by simp
      moreover have "ledgerPrice ?s' a' = max (round2 amt) (ledgerPrice s a)"
        using True a(2) by (simp add: ledgerPrice_def bo_i)
      moreover have "currentPrice a0 < round2 amt" using ok by (rule bid_ge)
      ultimately show ?thesis using True a(2) by simp
    next
      case False
      with consistentD(5)[OF c a(1)] a(2) show ?thesis by (simp add: ledgerPrice_def bo_k)
    qed
    show "bidCount a' = int (length (bidsOf ?s' (a_id a')))"
    proof (cases "a_id a = i")
      case True
      with consistentD(6)[OF c a(1)] a(2) show ?thesis by (simp add: bo_i)
    next
      case False
      with consistentD(6)[OF c a(1)] a(2) show ?thesis by (simp add: bo_k)
    qed
  qed
  with eq show ?thesis by simp
qed

lemma snd_afterExpiry:
  "(\<And>t. snd (k t) = t) \<Longrightarrow> snd (afterExpiry now k s) = snd (checkAndEndAuctions now s)"
  by (simp add: afterExpiry_def split: prod.splits option.splits)

lemma snd_placeBid:
  "snd (placeBid swept now stamp i bidder bname amt s) =
     (case fst (checkAndEndAuctions swept s) of
        Some e \<Rightarrow> snd (checkAndEndAuctions swept s)
      | None \<Rightarrow> snd (placeBidChecked now stamp i bidder bname amt (snd (checkAndEndAuctions swept s))))"
  by (simp add: placeBid_def afterExpiry_def split: prod.splits option.splits)

lemma consistent_placeBid:
  "consistent s \<Longrightarrow> consistent (snd (placeBid swept now stamp i bidder bname amt s))"
  by (simp add: snd_placeBid consistent_checkAndEndAuctions consistent_placeBidChecked
      split: option.splits)

lemma reads_sweep:
  "snd (getActiveAuctions now s) = snd (checkAndEndAuctions now s)"
  "snd (getAllAuctions now s) = snd (checkAndEndAuctions now s)"
  "snd (getAuctionById now i s) = snd (checkAndEndAuctions now s)"
  "snd (getAuctionsBySeller now seller s) = snd (checkAndEndAuctions now s)"
  "snd (getAuctionsByBidder now bidder s) = snd (checkAndEndAuctions now s)"
  "snd (searchAuctions matches now query s) = snd (checkAndEndAuctions now s)"
  "snd (getActiveAuctionCount now s) = snd (checkAndEndAuctions now s)"
  unfolding getActiveAuctions_def getAllAuctions_def getAuctionById_def getAuctionsBySeller_def
    getAuctionsByBidder_def searchAuctions_def getActiveAuctionCount_def
  by (rule snd_afterExpiry; simp add: Let_def split: option.splits)+

lemma consistent_step: "step s s' \<Longrightarrow> consistent s \<Longrightarrow> consistent s'"
  by (induction rule: step.induct)
    (simp_all add: reads_sweep consistent_checkAndEndAuctions consistent_createAuction
      consistent_placeBid consistent_cancelAuction consistent_updateAuctionStatus
      getBidsByAuction_def)

lemma consistent_initial: "consistent (initialService hoursFromNow)"
  by (simp add: consistent_def initialService_def SEED_AUCTIONS_def SEED_BIDS_def
      ledgerPrice_def bidsOf_def round2_def Math_round_def)

lemma reachable_consistent: "reachable s \<Longrightarrow> consistent s"
  by (induction rule: reachable.induct) (simp_all add: consistent_initial consistent_step)














lemma bidsByAmount_Nil: "bidsByAmount bs i = [] \<longleftrightarrow> filter (\<lambda>b. auctionId b = i) bs = []"
  unfolding bidsByAmount_def by (metis length_sort length_0_conv)

lemma consistent_endAuction_ok:
  assumes c: "consistent s" and a: "a \<in> set (auctions s)"
  shows "fst (endAuction (bids s) now a) = None"
proof (cases "0 < bidCount a")
  case True
  with consistentD(6)[OF c a] have "bidsOf s (a_id a) \<noteq> []" by auto
  then have "bidsByAmount (bids s) (a_id a) \<noteq> []"
    by (simp add: bidsByAmount_Nil bidsOf_def)
  then show ?thesis by (simp add: endAuction_def split: list.splits)
next
  case False
  then show ?thesis by (simp add: endAuction_def)
qed

lemma consistent_sweep:
  assumes c: "consistent s"
  shows "checkAndEndAuctions now s
           = (None, s\<lparr>auctions := map (\<lambda>a. snd (endAuction (bids s) now a)) (auctions s)\<rparr>)"
  using forEach_ok[of "auctions s" "endAuction (bids s) now"] consistent_endAuction_ok[OF c]
  by (simp add: checkAndEndAuctions_def)


lemma list_all2_nth_same:
  "list_all2 R xs ys \<Longrightarrow> j < length xs \<Longrightarrow> (\<And>y. R (xs ! j) y \<Longrightarrow> y = xs ! j) \<Longrightarrow> ys ! j = xs ! j"
  by (simp add: list_all2_conv_all_nth)

lemma terminal_checkAndEndAuctions:
  assumes "j < length (auctions s)" "status (auctions s ! j) \<noteq> Active"
  shows "auctions (snd (checkAndEndAuctions now s)) ! j = auctions s ! j"
  using assms by (intro list_all2_nth_same[OF checkAndEndAuctions_rel]) (auto simp: endAuction_terminal)

lemma updateFirst_nth:
  "find P xs = Some a \<Longrightarrow> j < length xs \<Longrightarrow> xs ! j \<noteq> a \<Longrightarrow> updateFirst P f xs ! j = xs ! j"
proof (induction xs arbitrary: j)
  case Nil
  then show ?case by simp
next
  case (Cons x xs)
  then show ?case by (cases j) (auto split: if_splits)
qed

lemma terminal_placeBidChecked:
  assumes "j < length (auctions s)" "status (auctions s ! j) \<noteq> Active"
  shows "auctions (snd (placeBidChecked now stamp i bidder bname amt s)) ! j = auctions s ! j"
proof (cases "find (\<lambda>a. a_id a = i) (auctions s)")
  case None
  then show ?thesis by (simp add: placeBidChecked_def)
next
  case (Some a)
  show ?thesis
  proof (cases "status a = Active")
    case True
    with assms(2) have "auctions s ! j \<noteq> a" by auto
    from updateFirst_nth[OF Some assms(1) this] Some
    show ?thesis by (simp add: placeBidChecked_def Let_def)
  next
    case False
    with Some show ?thesis by (simp add: placeBidChecked_def)
  qed
qed

lemma terminal_placeBid:
  assumes "j < length (auctions s)" "status (auctions s ! j) \<noteq> Active"
  shows "auctions (snd (placeBid swept now stamp i bidder bname amt s)) ! j = auctions s ! j"
proof -
  let ?s' = "snd (checkAndEndAuctions swept s)"
  have same: "auctions ?s' ! j = auctions s ! j" by (rule terminal_checkAndEndAuctions[OF assms])
  have len: "length (auctions ?s') = length (auctions s)"
    using checkAndEndAuctions_rel[of s swept] by (simp add: list_all2_lengthD)
  from assms same len
  have "auctions (snd (placeBidChecked now stamp i bidder bname amt ?s')) ! j = auctions ?s' ! j"
    by (intro terminal_placeBidChecked) simp_all
  with same show ?thesis by (simp add: snd_placeBid split: option.splits)
qed

lemma terminal_cancelAuction:
  assumes "j < length (auctions s)" "status (auctions s ! j) \<noteq> Active"
  shows "auctions (snd (cancelAuction i seller s)) ! j = auctions s ! j"
proof (cases "find (\<lambda>a. a_id a = i) (auctions s)")
  case None
  then show ?thesis by (simp add: cancelAuction_def)
next
  case (Some a)
  show ?thesis
  proof (cases "status a = Active")
    case True
    with assms(2) have "auctions s ! j \<noteq> a" by auto
    from updateFirst_nth[OF Some assms(1) this] Some
    show ?thesis by (simp add: cancelAuction_def)
  next
    case False
    with Some show ?thesis by (simp add: cancelAuction_def)
  qed
qed

lemma find_map_key:
  "(\<And>x. P (g x) = P x) \<Longrightarrow> find P (map g xs) = map_option g (find P xs)"
  by (induction xs) auto

lemma endAuction_expired:
  "status a = Active \<Longrightarrow> endsAt a \<le> now \<Longrightarrow>
   status (snd (endAuction bs now a)) = Sold \<or> status (snd (endAuction bs now a)) = Ended"
  by (simp add: endAuction_def split: list.splits)

lemma endAuction_endsAt: "endsAt (snd (endAuction bs now a)) = endsAt a"
  by (simp add: endAuction_def split: list.splits)

lemma endAuction_status:
  "status (snd (endAuction bs now a)) = Active \<Longrightarrow> status a = Active"
  by (auto simp: endAuction_def split: list.splits if_splits)

lemma placeBid_expired:
  assumes f: "find (\<lambda>a. a_id a = i) (auctions s) = Some a" and e: "endsAt a \<le> now"
  shows "isl (fst (placeBid swept now stamp i bidder bname amt s))"
proof -
  obtain r s' where sw: "checkAndEndAuctions swept s = (r, s')"
    by (cases "checkAndEndAuctions swept s")
  show ?thesis
  proof (cases r)
    case (Some err)
    with sw show ?thesis by (simp add: placeBid_def afterExpiry_def)
  next
    case None
    from find_after_expiry[OF f, of swept] sw obtain a' where
      a': "find (\<lambda>a. a_id a = i) (auctions s') = Some a'"
      "a' = a \<or> a' = snd (endAuction (bids s) swept a)" by auto
    from a'(2) e have "endsAt a' \<le> now" by (auto simp: endAuction_endsAt)
    with a'(1) have "isl (fst (placeBidChecked now stamp i bidder bname amt s'))"
      by (simp add: placeBidChecked_def)
    with sw None show ?thesis by (simp add: placeBid_def afterExpiry_def)
  qed
qed

lemma foldl_plus_sum_list:
  "foldl (\<lambda>s x. s + f x) (a::rat) xs = a + sum_list (map f xs)"
  by (induction xs arbitrary: a) (simp_all add: add.assoc)

lemma approvedRatings_filter:
  "approvedRatings pid (s\<lparr>reviews := filter (\<lambda>r. r_status r = Approved) (reviews s)\<rparr>)
     = approvedRatings pid s"
  by (simp add: approvedRatings_def conj_commute cong: conj_cong)

lemma getAverageRating_spec: "getAverageRating pid s = spec_averageRating pid s"
  by (simp add: getAverageRating_def spec_averageRating_def approvedRatings_def round1_def
      Math_round_def Let_def foldl_plus_sum_list comp_def)

lemmas order_seed_defs = initialOrderService_def SEED_ORDERS_def buildOrder_def TAX_RATE_def
  FLAT_FEE_def round2_def Math_round_def Let_def












lemma findIndex_None: "findIndex P xs = None \<longleftrightarrow> (\<forall>x \<in> set xs. \<not> P x)"
  by (induction xs) auto



lemmas seed_defs = initialService_def SEED_AUCTIONS_def SEED_BIDS_def daysAgo_def daysFromNow_def
  hoursFromEpoch_def

section \<open>Placing a bid\<close>




section \<open>Price and bid count follow the ledger\<close>



section \<open>Expiry on read\<close>




section \<open>Terminal statuses\<close>

text \<open>
  C5 (as amended). An auction that is sold, ended or cancelled is changed by no call of the
  expiry check, of a read, of \<^verbatim>\<open>createAuction\<close>, of \<^verbatim>\<open>placeBid\<close> or of \<^verbatim>\<open>cancelAuction\<close>: it
  stays in its place with all its fields. The status update of the administrator is the
  exception: \<^verbatim>\<open>updateAuctionStatus\<close> gives the auction it finds the status it is called with,
  whatever the status was.
\<close>

theorem terminal_statuses:
  "j < length (auctions s) \<Longrightarrow> status (auctions s ! j) \<noteq> Active \<Longrightarrow>
     auctions (snd (checkAndEndAuctions now s)) ! j = auctions s ! j
   \<and> auctions (snd (getActiveAuctions now s)) ! j = auctions s ! j
   \<and> auctions (snd (getAllAuctions now s)) ! j = auctions s ! j
   \<and> auctions (snd (getAuctionById now i s)) ! j = auctions s ! j
   \<and> auctions (snd (getAuctionsBySeller now seller s)) ! j = auctions s ! j
   \<and> auctions (snd (getAuctionsByBidder now bidder s)) ! j = auctions s ! j
   \<and> auctions (snd (searchAuctions matches now query s)) ! j = auctions s ! j
   \<and> auctions (snd (getActiveAuctionCount now s)) ! j = auctions s ! j
   \<and> auctions (snd (getBidsByAuction i s)) ! j = auctions s ! j
   \<and> auctions (snd (createAuction now d s)) ! j = auctions s ! j
   \<and> auctions (snd (placeBid swept now stamp i bidder bname amt s)) ! j = auctions s ! j
   \<and> auctions (snd (cancelAuction i seller s)) ! j = auctions s ! j
   \<and> (find (\<lambda>a. a_id a = i) (auctions s) = Some (auctions s ! j) \<longrightarrow>
        fst (updateAuctionStatus i st s) = Inr ((auctions s ! j)\<lparr>status := st\<rparr>)
      \<and> find (\<lambda>a. a_id a = i) (auctions (snd (updateAuctionStatus i st s)))
          = Some ((auctions s ! j)\<lparr>status := st\<rparr>))"
proof -
  assume j: "j < length (auctions s)" and t: "status (auctions s ! j) \<noteq> Active"
  note sw = terminal_checkAndEndAuctions[OF j t, of now]
  have cr: "auctions (snd (createAuction now d s)) ! j = auctions s ! j"
    using j by (simp add: createAuction_def Let_def nth_append)
  have gb: "auctions (snd (getBidsByAuction i s)) ! j = auctions s ! j"
    by (simp add: getBidsByAuction_def)
  have up: "find (\<lambda>a. a_id a = i) (auctions s) = Some (auctions s ! j) \<longrightarrow>
        fst (updateAuctionStatus i st s) = Inr ((auctions s ! j)\<lparr>status := st\<rparr>)
      \<and> find (\<lambda>a. a_id a = i) (auctions (snd (updateAuctionStatus i st s)))
          = Some ((auctions s ! j)\<lparr>status := st\<rparr>)"
  proof
    assume f: "find (\<lambda>a. a_id a = i) (auctions s) = Some (auctions s ! j)"
    then have "a_id (auctions s ! j) = i" by (auto simp: find_Some_iff)
    then have "a_id ((auctions s ! j)\<lparr>status := st\<rparr>) = i" by simp
    from find_updateFirst_same[where P = "\<lambda>a. a_id a = i" and f = "\<lambda>a. a\<lparr>status := st\<rparr>", OF f this] f
    show "fst (updateAuctionStatus i st s) = Inr ((auctions s ! j)\<lparr>status := st\<rparr>)
      \<and> find (\<lambda>a. a_id a = i) (auctions (snd (updateAuctionStatus i st s)))
          = Some ((auctions s ! j)\<lparr>status := st\<rparr>)"
      by (simp add: updateAuctionStatus_def)
  qed
  from sw cr gb up terminal_placeBid[OF j t] terminal_cancelAuction[OF j t]
  show ?thesis by (simp only: reads_sweep simp_thms)
qed

text \<open>The sold auction of the seed (id 5, the fifth of the list).\<close>

theorem terminal_statuses_witness:
  "auctions (snd (checkAndEndAuctions 259200000 (initialService hoursFromEpoch))) ! 4
     = auctions (initialService hoursFromEpoch) ! 4
   \<and> auctions (snd (placeBid 0 0 0 5 100 ''Jane S.'' 150 (initialService hoursFromEpoch))) ! 4
     = auctions (initialService hoursFromEpoch) ! 4
   \<and> auctions (snd (cancelAuction 5 998 (initialService hoursFromEpoch))) ! 4
     = auctions (initialService hoursFromEpoch) ! 4
   \<and> fst (updateAuctionStatus 5 Ended (initialService hoursFromEpoch))
     = Inr ((auctions (initialService hoursFromEpoch) ! 4)\<lparr>status := Ended\<rparr>)"
proof -
  let ?s = "initialService hoursFromEpoch"
  have j: "4 < length (auctions ?s)" by (simp add: seed_defs)
  have t: "status (auctions ?s ! 4) \<noteq> Active" by (simp add: seed_defs)
  have f: "find (\<lambda>a. a_id a = 5) (auctions ?s) = Some (auctions ?s ! 4)" by (simp add: seed_defs)
  note ts = terminal_statuses[OF j t, where now = 259200000 and i = 5 and seller = 998
      and bidder = 100 and matches = "\<lambda>t a. True" and query = "[]" and swept = 0
      and stamp = 0 and bname = "''Jane S.''" and amt = 150 and st = Ended]
  from ts have 1: "auctions (snd (checkAndEndAuctions 259200000 ?s)) ! 4 = auctions ?s ! 4"
    by (rule conjunct1)
  note ts2 = terminal_statuses[OF j t, where now = 0 and i = 5 and seller = 998
      and bidder = 100 and matches = "\<lambda>t a. True" and query = "[]" and swept = 0
      and stamp = 0 and bname = "''Jane S.''" and amt = 150 and st = Ended]
  from ts2 f have 2: "auctions (snd (placeBid 0 0 0 5 100 ''Jane S.'' 150 ?s)) ! 4 = auctions ?s ! 4"
    and 3: "auctions (snd (cancelAuction 5 998 ?s)) ! 4 = auctions ?s ! 4"
    and 4: "fst (updateAuctionStatus 5 Ended ?s) = Inr ((auctions ?s ! 4)\<lparr>status := Ended\<rparr>)"
    by blast+
  from 1 2 3 4 show ?thesis by blast
qed

text \<open>
  The specification has no operation change the status of a sold auction. On the seed the fifth
  auction is sold, and \<^verbatim>\<open>updateAuctionStatus(5, 'active')\<close> makes it active again.
\<close>

theorem updateAuctionStatus_counterexample:
  "status (auctions (initialService hoursFromEpoch) ! 4) = Sold
   \<and> status (auctions (snd (updateAuctionStatus 5 Active (initialService hoursFromEpoch))) ! 4) = Active"
  by (simp add: updateAuctionStatus_def seed_defs)

section \<open>Cancelling after the deadline\<close>

text \<open>
  C10. \<^verbatim>\<open>cancelAuction\<close> runs no expiry check. In a reachable state, let the auction found
  for the id be active with a deadline that has passed, and let the seller cancel it:
  the call succeeds, the auction is the same but for its status, which is \<open>Cancelled\<close> (no
  winner is assigned), and the bids stay. A read at that moment, \<^verbatim>\<open>getAuctionById\<close>,
  returns the auction as the expiry check made it, sold or ended, and leaves it so in the
  service; and \<^verbatim>\<open>placeBid\<close> on it fails, whoever bids and whatever the amount.
\<close>

theorem cancel_after_deadline:
  "reachable s \<Longrightarrow> find (\<lambda>a. a_id a = i) (auctions s) = Some a \<Longrightarrow> sellerId a = seller \<Longrightarrow>
   status a = Active \<Longrightarrow> endsAt a \<le> now \<Longrightarrow>
     fst (cancelAuction i seller s) = Inr (a\<lparr>status := Cancelled\<rparr>)
   \<and> find (\<lambda>a. a_id a = i) (auctions (snd (cancelAuction i seller s))) = Some (a\<lparr>status := Cancelled\<rparr>)
   \<and> bids (snd (cancelAuction i seller s)) = bids s
   \<and> fst (getAuctionById now i s) = Inr (snd (endAuction (bids s) now a))
   \<and> find (\<lambda>a. a_id a = i) (auctions (snd (getAuctionById now i s)))
       = Some (snd (endAuction (bids s) now a))
   \<and> (status (snd (endAuction (bids s) now a)) = Sold \<or> status (snd (endAuction (bids s) now a)) = Ended)
   \<and> isl (fst (placeBid swept now stamp i bidder bname amt s))"
proof -
  assume r: "reachable s" and f: "find (\<lambda>a. a_id a = i) (auctions s) = Some a"
    and sl: "sellerId a = seller" and act: "status a = Active" and e: "endsAt a \<le> now"
  have c: "consistent s" using r by (rule reachable_consistent)
  have id: "a_id a = i" using f by (auto simp: find_Some_iff)
  then have "a_id (a\<lparr>status := Cancelled\<rparr>) = i" by simp
  from find_updateFirst_same[where P = "\<lambda>a. a_id a = i" and f = "\<lambda>a. a\<lparr>status := Cancelled\<rparr>", OF f this]
  have 1: "fst (cancelAuction i seller s) = Inr (a\<lparr>status := Cancelled\<rparr>)"
    and 2: "find (\<lambda>a. a_id a = i) (auctions (snd (cancelAuction i seller s))) = Some (a\<lparr>status := Cancelled\<rparr>)"
    and 3: "bids (snd (cancelAuction i seller s)) = bids s"
    using f sl act by (simp_all add: cancelAuction_def)
  have fs: "find (\<lambda>a. a_id a = i) (auctions (snd (checkAndEndAuctions now s)))
       = Some (snd (endAuction (bids s) now a))"
    using f by (simp add: consistent_sweep[OF c] find_map_key endAuction_a_id)
  then have 4: "fst (getAuctionById now i s) = Inr (snd (endAuction (bids s) now a))"
    by (simp add: getAuctionById_def afterExpiry_def consistent_sweep[OF c])
  from fs have 5: "find (\<lambda>a. a_id a = i) (auctions (snd (getAuctionById now i s)))
       = Some (snd (endAuction (bids s) now a))"
    by (simp add: reads_sweep)
  note 6 = endAuction_expired[OF act e, of "bids s"]
  note 7 = placeBid_expired[OF f e, of swept stamp bidder bname amt]
  from 1 2 3 4 5 6 7 show ?thesis by blast
qed

text \<open>The first auction of the seed, three days after the load, cancelled by its seller
  (user 100).\<close>

theorem cancel_after_deadline_witness:
  "fst (cancelAuction 1 100 (initialService hoursFromEpoch))
     = Inr ((auctions (initialService hoursFromEpoch) ! 0)\<lparr>status := Cancelled\<rparr>)
   \<and> winnerId ((auctions (initialService hoursFromEpoch) ! 0)\<lparr>status := Cancelled\<rparr>) = None
   \<and> fst (getAuctionById 259200000 1 (initialService hoursFromEpoch))
     = Inr (snd (endAuction (bids (initialService hoursFromEpoch)) 259200000
              (auctions (initialService hoursFromEpoch) ! 0)))
   \<and> isl (fst (placeBid 259200000 259200000 259200000 1 101 ''Mark J.'' 79
              (initialService hoursFromEpoch)))"
proof -
  let ?s = "initialService hoursFromEpoch"
  have r: "reachable ?s" by (rule reachable_initial)
  have f: "find (\<lambda>a. a_id a = 1) (auctions ?s) = Some (auctions ?s ! 0)" by (simp add: seed_defs)
  have sl: "sellerId (auctions ?s ! 0) = 100" by (simp add: seed_defs)
  have act: "status (auctions ?s ! 0) = Active" by (simp add: seed_defs)
  have e: "endsAt (auctions ?s ! 0) \<le> 259200000" by (simp add: seed_defs)
  have w: "winnerId ((auctions ?s ! 0)\<lparr>status := Cancelled\<rparr>) = None" by (simp add: seed_defs)
  from cancel_after_deadline[OF r f sl act e, where swept = 259200000 and stamp = 259200000
      and bidder = 101 and bname = "''Mark J.''" and amt = 79] w
  show ?thesis by blast
qed

section \<open>The average rating\<close>

text \<open>
  C8. \<^verbatim>\<open>getAverageRating\<close> of a product is the mean of the ratings of its approved
  reviews, rounded to one decimal, and 0 when it has none; reviews that are pending or
  rejected do not count (removing them changes nothing); with a single approved review of
  rating 5 the average is 5.
\<close>

theorem average_rating:
  "getAverageRating pid s = spec_averageRating pid s
   \<and> getAverageRating pid (s\<lparr>reviews := filter (\<lambda>r. r_status r = Approved) (reviews s)\<rparr>)
       = getAverageRating pid s
   \<and> (approvedRatings pid s = [] \<longrightarrow> getAverageRating pid s = 0)
   \<and> (approvedRatings pid s = [5] \<longrightarrow> getAverageRating pid s = 5)"
proof (intro conjI impI)
  show "getAverageRating pid s = spec_averageRating pid s" by (rule getAverageRating_spec)
  show "getAverageRating pid (s\<lparr>reviews := filter (\<lambda>r. r_status r = Approved) (reviews s)\<rparr>)
       = getAverageRating pid s"
    by (simp add: getAverageRating_spec spec_averageRating_def approvedRatings_filter)
  assume "approvedRatings pid s = []"
  then show "getAverageRating pid s = 0"
    by (simp add: getAverageRating_spec spec_averageRating_def)
next
  assume "approvedRatings pid s = [5]"
  then show "getAverageRating pid s = 5"
    by (simp add: getAverageRating_spec spec_averageRating_def round1_def)
qed

text \<open>No review; the first seed review of product 2 alone (rating 5); the three seed reviews
  of product 2, where the pending one of rating 2 does not count: (5 + 4) / 2.\<close>

theorem average_rating_witness:
  "getAverageRating 2 \<lparr> reviews = [], r_nextId = 1 \<rparr> = 0
   \<and> getAverageRating 2 \<lparr> reviews = [hd seedReviewsOfProduct2], r_nextId = 13 \<rparr> = 5
   \<and> getAverageRating 2 \<lparr> reviews = seedReviewsOfProduct2, r_nextId = 13 \<rparr> = 4.5"
proof -
  have e: "approvedRatings 2 \<lparr> reviews = [], r_nextId = 1 \<rparr> = []"
    by (simp add: approvedRatings_def)
  have o: "approvedRatings 2 \<lparr> reviews = [hd seedReviewsOfProduct2], r_nextId = 13 \<rparr> = [5]"
    by (simp add: approvedRatings_def seedReviewsOfProduct2_def)
  have t: "spec_averageRating 2 \<lparr> reviews = seedReviewsOfProduct2, r_nextId = 13 \<rparr> = 4.5"
    by (simp add: spec_averageRating_def approvedRatings_def seedReviewsOfProduct2_def round1_def)
  from average_rating[of 2 "\<lparr> reviews = [], r_nextId = 1 \<rparr>"] e
  have 1: "getAverageRating 2 \<lparr> reviews = [], r_nextId = 1 \<rparr> = 0" by blast
  from average_rating[of 2 "\<lparr> reviews = [hd seedReviewsOfProduct2], r_nextId = 13 \<rparr>"] o
  have 2: "getAverageRating 2 \<lparr> reviews = [hd seedReviewsOfProduct2], r_nextId = 13 \<rparr> = 5" by blast
  from average_rating[of 2 "\<lparr> reviews = seedReviewsOfProduct2, r_nextId = 13 \<rparr>"] t
  have 3: "getAverageRating 2 \<lparr> reviews = seedReviewsOfProduct2, r_nextId = 13 \<rparr> = 4.5" by simp
  from 1 2 3 show ?thesis by blast
qed


section \<open>Revenue and order count\<close>

text \<open>
  C9 (as amended). \<^verbatim>\<open>getTotalRevenue\<close> is the rounded sum of the totals of the orders that
  are not cancelled. \<^verbatim>\<open>getOrderCount\<close> is the number of all orders: those that are not
  cancelled and those that are.
\<close>

theorem order_aggregates:
  "getTotalRevenue s = round2 (sum_list (map total (nonCancelled s)))
   \<and> getOrderCount s = length (nonCancelled s) + length (cancelled s)"
proof
  show "getTotalRevenue s = round2 (sum_list (map total (nonCancelled s)))"
    by (simp add: getTotalRevenue_def nonCancelled_def foldl_plus_sum_list)
  show "getOrderCount s = length (nonCancelled s) + length (cancelled s)"
    unfolding getOrderCount_def nonCancelled_def cancelled_def
    using sum_length_filter_compl[of "\<lambda>ord. o_status ord = OrderCancelled" "orders s"] by simp
qed

text \<open>The specification has the count leave cancelled orders out. The seed has five orders, one of
  them cancelled, and the count is 5.\<close>

theorem getOrderCount_counterexample:
  "getOrderCount initialOrderService = 5 \<and> length (nonCancelled initialOrderService) = 4"
  by (simp add: getOrderCount_def nonCancelled_def order_seed_defs)

section \<open>Creating an order\<close>




section \<open>Order totals\<close>




section \<open>Updating the status of an order\<close>



end
